theory Spec2Isabelle
  imports Main "HOL-Library.Word"
begin

section \<open>The IVF index adapter (IndexIVF.cpp)\<close>

text \<open>
  The file under verification is a thin adapter: every numeric kernel (quantizer training,
  vector insertion, partition-limited search, index (de)serialisation, device copy) is a call
  into the faiss library. The adapter's own logic is the lifecycle checks, the buffer
  bookkeeping, the ownership of the underlying index object and the batching loop of
  \<open>GenGraph\<close>. The embedding keeps this split: faiss entry points are fields of a record of
  functions that every operation takes as its first argument, and the adapter's code is
  translated function by function.

  The model is sequential: the \<open>std::lock_guard\<close> that the mutating operations take on the
  object's mutex has no counterpart. Running out of memory (\<open>malloc\<close> returning null,
  \<open>std::bad_alloc\<close>) is not modelled either.
\<close>

subsection \<open>Data\<close>

text \<open>A C++ \<open>float\<close> is carried as its 32-bit pattern: the adapter only stores and copies
  floats, so equality of patterns is bit-exact equality.\<close>

type_synonym float = "32 word"
type_synonym byte = "8 word"

datatype MetricType = METRIC_INNER_PRODUCT | METRIC_L2

text \<open>\<open>faiss::Index\<close> as the adapter sees it: the public fields it reads (\<open>d\<close>, \<open>ntotal\<close>,
  \<open>is_trained\<close>), the constructor arguments it passes (\<open>metric_type\<close>, \<open>nlist\<close>), and the
  stored content (centroids of the coarse quantizer, inverted lists of (id, vector) pairs).\<close>

record faiss_Index =
  d :: nat
  ntotal :: nat
  is_trained :: bool
  metric_type :: MetricType
  nlist :: nat
  centroids :: "float list list"
  invlists :: "(int \<times> float list) list list"

text \<open>Modelled from the spec: the \<open>Dataset\<close> container and the \<open>GETTENSOR\<close> macro
  (VectorAdapter.h) are not part of the sources. Section 6 of the specification fixes what they
  deliver: a row-major contiguous float buffer with an explicit \<open>rows \<times> dim\<close> shape. The id
  column read by \<open>Add\<close> (\<open>dataset->array()[0]\<close>) is the field \<open>p_ids\<close>.\<close>

record Dataset =
  rows :: nat
  dim :: nat
  p_data :: "float list"
  p_ids :: "int list"

definition GETTENSOR :: "Dataset \<Rightarrow> float list \<times> nat \<times> nat" where
  "GETTENSOR dataset = (p_data dataset, dim dataset, rows dataset)"

text \<open>The dataset returned by \<open>Search\<close>: the id array and the distance array, each of
  \<open>rows * k\<close> elements.\<close>

record SearchResult =
  ids :: "int list"
  dists :: "float list"

text \<open>Modelled from the spec: \<open>Config\<close> (a JSON object in the sources' headers) is not part
  of the sources. The adapter reads four entries: \<open>config["nlist"]\<close>, \<open>config["metric_type"]\<close>,
  \<open>config["k"]\<close> and the optional \<open>"nprobe"\<close>.\<close>

record Config =
  cfg_nlist :: nat
  cfg_metric_type :: string
  cfg_k :: nat
  cfg_nprobe :: "nat option"

type_synonym BinarySet = "string \<Rightarrow> byte list option"
type_synonym Graph = "int list list"

subsection \<open>Errors\<close>

text \<open>
  \<open>KNOWHERE_THROW_MSG\<close> raises a \<open>KnowhereException\<close> carrying the message; an exception
  leaving faiss is a \<open>FaissException\<close>; a \<open>std::vector\<close> asked for a negative size raises
  \<open>std::length_error\<close>. Behaviour that C++ leaves undefined is an outcome of its own, so that
  a theorem can say that it happens. \<open>CorruptData\<close> is the specification's name for a blob that
  does not decode.
\<close>

datatype undefined_behaviour = NullDereference | OutOfBoundsRead | SignedOverflow

datatype error =
    KnowhereException string
  | FaissException string
  | StdLengthError
  | CorruptData
  | Undefined undefined_behaviour

abbreviation NotTrained :: error where
  "NotTrained \<equiv> KnowhereException ''index not initialize or trained''"

abbreviation ResourceUnavailable :: error where
  "ResourceUnavailable \<equiv> KnowhereException ''CopyCpuToGpu Error, can't get gpu_resource''"

subsection \<open>The store and the trace\<close>

text \<open>
  Index objects live in a store and are held through \<open>shared_ptr\<close>, modelled as an optional
  address; \<open>None\<close> is the null pointer. An address is a position in the list of allocated
  objects, so a new object never reuses the address of an old one. Objects are not freed in
  the model: no operation of the adapter reads an object after dropping its last pointer.

  The trace records, in order, the calls whose occurrence or order a property speaks about.
\<close>

datatype event =
    Malloc nat
  | Call_train faiss_Index nat "float list"
  | Call_Seal
  | Call_SealImpl
  | Call_SerializeImpl
  | Call_search nat nat nat

record world =
  heap :: "faiss_Index list"
  events :: "event list"

definition emit :: "event \<Rightarrow> world \<Rightarrow> world" where
  "emit e w = w\<lparr>events := events w @ [e]\<rparr>"

definition alloc :: "world \<Rightarrow> faiss_Index \<Rightarrow> nat \<times> world" where
  "alloc w ix = (length (heap w), w\<lparr>heap := heap w @ [ix]\<rparr>)"

definition deref :: "world \<Rightarrow> nat \<Rightarrow> faiss_Index option" where
  "deref w a = (if a < length (heap w) then Some (heap w ! a) else None)"

definition store :: "world \<Rightarrow> nat \<Rightarrow> faiss_Index \<Rightarrow> world" where
  "store w a ix = w\<lparr>heap := (heap w)[a := ix]\<rparr>"

text \<open>\<open>FaissBaseIndex\<close>: the one field \<open>index_\<close> (here \<open>m_index\<close>) shared by \<open>IVF\<close> and
  \<open>IVFIndexModel\<close>.\<close>

record FaissBaseIndex =
  m_index :: "nat option"

text \<open>The object behind \<open>index_\<close>, if there is one.\<close>

definition the_index :: "world \<Rightarrow> FaissBaseIndex \<Rightarrow> faiss_Index option" where
  "the_index w this = (case m_index this of None \<Rightarrow> None | Some a \<Rightarrow> deref w a)"

subsection \<open>The faiss entry points\<close>

text \<open>
  What the adapter calls and does not implement. \<open>train\<close> may throw (\<open>Inl\<close> the message);
  \<open>add\<close>, \<open>add_with_ids\<close> and the search are taken to return normally. The search is given the
  \<open>n * d\<close> floats it reads and yields, for every output slot \<open>t < n * k\<close>, the distance and the
  label it writes there. \<open>read_index\<close> fails on bytes it cannot decode.
\<close>

record faiss =
  train :: "faiss_Index \<Rightarrow> nat \<Rightarrow> float list \<Rightarrow> string + faiss_Index"
  add_with_ids :: "faiss_Index \<Rightarrow> nat \<Rightarrow> float list \<Rightarrow> int list \<Rightarrow> faiss_Index"
  add :: "faiss_Index \<Rightarrow> nat \<Rightarrow> float list \<Rightarrow> faiss_Index"
  search_with_parameters ::
    "faiss_Index \<Rightarrow> nat \<Rightarrow> float list \<Rightarrow> nat \<Rightarrow> nat \<Rightarrow> (nat \<Rightarrow> float) \<times> (nat \<Rightarrow> int)"
  write_index :: "faiss_Index \<Rightarrow> byte list"
  read_index :: "byte list \<Rightarrow> faiss_Index option"
  index_cpu_to_gpu :: "nat \<Rightarrow> int \<Rightarrow> faiss_Index option \<Rightarrow> string + faiss_Index"

text \<open>\<open>new faiss::IndexIVFFlat(new faiss::IndexFlatL2(dim), dim, nlist, metric)\<close>: an empty
  index. faiss marks it trained exactly when the (empty) flat quantizer already holds \<open>nlist\<close>
  centroids.\<close>

definition IndexIVFFlat :: "nat \<Rightarrow> nat \<Rightarrow> MetricType \<Rightarrow> faiss_Index" where
  "IndexIVFFlat dm nl metric =
     \<lparr>d = dm, ntotal = 0, is_trained = (nl = 0), metric_type = metric, nlist = nl,
      centroids = [], invlists = replicate nl []\<rparr>"

text \<open>\<open>faiss::clone_index\<close>: a new object with a copy of the content. Handed the null pointer
  it recognises no index type and throws.\<close>

definition clone_index :: "world \<Rightarrow> faiss_Index option \<Rightarrow> (error + nat) \<times> world" where
  "clone_index w p =
     (case p of
        None \<Rightarrow> (Inl (FaissException ''clone not supported for this type of Index''), w)
      | Some ix \<Rightarrow> (let (a, w') = alloc w ix in (Inr a, w')))"

text \<open>A pointer into a float buffer is the buffer and an offset. Reading \<open>cnt\<close> floats through
  it is defined only inside the buffer.\<close>

definition read_floats :: "float list \<times> nat \<Rightarrow> nat \<Rightarrow> float list option" where
  "read_floats p cnt =
     (case p of (buf, off) \<Rightarrow>
        if off + cnt \<le> length buf then Some (take cnt (drop off buf)) else None)"

subsection \<open>Train\<close>

definition Train ::
  "faiss \<Rightarrow> world \<Rightarrow> Dataset \<Rightarrow> Config \<Rightarrow> (error + FaissBaseIndex) \<times> world" where
  "Train lib w dataset config =
     (let nl = cfg_nlist config;
          metric = (if cfg_metric_type config = ''L2'' then METRIC_L2 else METRIC_INNER_PRODUCT);
          (data, dm, rws) = GETTENSOR dataset;
          index = IndexIVFFlat dm nl metric;
          w1 = emit (Call_train index rws data) w
      in case train lib index rws data of
           Inl msg \<Rightarrow> (Inl (FaissException msg), w1)
         | Inr index' \<Rightarrow> (let (a, w2) = alloc w1 index' in (Inr \<lparr>m_index = Some a\<rparr>, w2)))"

subsection \<open>Add, AddWithoutIds\<close>

definition Add ::
  "faiss \<Rightarrow> world \<Rightarrow> FaissBaseIndex \<Rightarrow> Dataset \<Rightarrow> Config \<Rightarrow> (error + unit) \<times> world" where
  "Add lib w this dataset config =
     (case m_index this of
        None \<Rightarrow> (Inl NotTrained, w)
      | Some a \<Rightarrow>
          (case deref w a of
             None \<Rightarrow> (Inl NotTrained, w)
           | Some ix \<Rightarrow>
               if \<not> is_trained ix then (Inl NotTrained, w)
               else
                 (let (data, dm, rws) = GETTENSOR dataset
                  in case read_floats (data, 0) (rws * d ix) of
                       None \<Rightarrow> (Inl (Undefined OutOfBoundsRead), w)
                     | Some xs \<Rightarrow>
                         if length (p_ids dataset) < rws
                         then (Inl (Undefined OutOfBoundsRead), w)
                         else (Inr (),
                               store w a (add_with_ids lib ix rws xs (take rws (p_ids dataset)))))))"

definition AddWithoutIds ::
  "faiss \<Rightarrow> world \<Rightarrow> FaissBaseIndex \<Rightarrow> Dataset \<Rightarrow> Config \<Rightarrow> (error + unit) \<times> world" where
  "AddWithoutIds lib w this dataset config =
     (case m_index this of
        None \<Rightarrow> (Inl NotTrained, w)
      | Some a \<Rightarrow>
          (case deref w a of
             None \<Rightarrow> (Inl NotTrained, w)
           | Some ix \<Rightarrow>
               if \<not> is_trained ix then (Inl NotTrained, w)
               else
                 (let (data, dm, rws) = GETTENSOR dataset
                  in case read_floats (data, 0) (rws * d ix) of
                       None \<Rightarrow> (Inl (Undefined OutOfBoundsRead), w)
                     | Some xs \<Rightarrow> (Inr (), store w a (add lib ix rws xs)))))"

subsection \<open>Seal, Serialize, Load\<close>

text \<open>Modelled from the spec: \<open>SealImpl\<close> of the index class is not part of the sources.
  Section 4.1: once the trained check has passed, sealing is "a no-op extension point"
  whose "base behavior is empty". The call is recorded in the trace.\<close>

definition SealImpl :: "world \<Rightarrow> FaissBaseIndex \<Rightarrow> world" where
  "SealImpl w this = emit Call_SealImpl w"

definition Seal :: "world \<Rightarrow> FaissBaseIndex \<Rightarrow> (error + unit) \<times> world" where
  "Seal w this =
     (let w0 = emit Call_Seal w
      in case the_index w0 this of
           None \<Rightarrow> (Inl NotTrained, w0)
         | Some ix \<Rightarrow>
             if \<not> is_trained ix then (Inl NotTrained, w0)
             else (Inr (), SealImpl w0 this))"

text \<open>Modelled from the spec: \<open>SerializeImpl\<close> and \<open>LoadImpl\<close> (FaissBaseIndex) are not part of
  the sources. Section 4.4: the encoder writes the whole index state into "one or more named
  blobs" and the only requirement on the layout is that "decode is its exact inverse"; the
  decoder "reconstructs quantizer and inverted lists" and must "reject malformed blobs with a
  CorruptData error". Here there is one blob, named \<open>IVF\<close>, holding the bytes of faiss's
  \<open>write_index\<close>; loading makes a new index object from faiss's \<open>read_index\<close> and points
  \<open>index_\<close> at it.\<close>

definition SerializeImpl ::
  "faiss \<Rightarrow> world \<Rightarrow> FaissBaseIndex \<Rightarrow> (error + BinarySet) \<times> world" where
  "SerializeImpl lib w this =
     (let w0 = emit Call_SerializeImpl w
      in case the_index w0 this of
           None \<Rightarrow> (Inl (Undefined NullDereference), w0)
         | Some ix \<Rightarrow> (Inr (Map.empty(''IVF'' \<mapsto> write_index lib ix)), w0))"

definition LoadImpl ::
  "faiss \<Rightarrow> world \<Rightarrow> FaissBaseIndex \<Rightarrow> BinarySet \<Rightarrow> (error + FaissBaseIndex) \<times> world" where
  "LoadImpl lib w this index_binary =
     (case index_binary ''IVF'' of
        None \<Rightarrow> (Inl CorruptData, w)
      | Some bytes \<Rightarrow>
          (case read_index lib bytes of
             None \<Rightarrow> (Inl CorruptData, w)
           | Some ix \<Rightarrow> (let (a, w') = alloc w ix in (Inr (this\<lparr>m_index := Some a\<rparr>), w'))))"

definition Serialize ::
  "faiss \<Rightarrow> world \<Rightarrow> FaissBaseIndex \<Rightarrow> (error + BinarySet) \<times> world" where
  "Serialize lib w this =
     (case the_index w this of
        None \<Rightarrow> (Inl NotTrained, w)
      | Some ix \<Rightarrow>
          if \<not> is_trained ix then (Inl NotTrained, w)
          else
            (case Seal w this of
               (Inl e, w1) \<Rightarrow> (Inl e, w1)
             | (Inr u, w1) \<Rightarrow> SerializeImpl lib w1 this))"

definition Load ::
  "faiss \<Rightarrow> world \<Rightarrow> FaissBaseIndex \<Rightarrow> BinarySet \<Rightarrow> (error + FaissBaseIndex) \<times> world" where
  "Load lib w this index_binary = LoadImpl lib w this index_binary"

subsection \<open>Search\<close>

text \<open>\<open>GenParams\<close> builds the search parameters, of which only \<open>nprobe\<close> is set: the
  configured value, or 1.\<close>

definition GenParams :: "Config \<Rightarrow> nat" where
  "GenParams config = (case cfg_nprobe config of None \<Rightarrow> 1 | Some p \<Rightarrow> p)"

text \<open>\<open>search_impl(n, data, k, distances, labels, cfg)\<close>: the result is what the call has
  written into the first \<open>n * k\<close> slots of \<open>distances\<close> and of \<open>labels\<close>.\<close>

definition search_impl ::
  "faiss \<Rightarrow> world \<Rightarrow> FaissBaseIndex \<Rightarrow> nat \<Rightarrow> float list \<times> nat \<Rightarrow> nat \<Rightarrow> Config
     \<Rightarrow> (error + float list \<times> int list) \<times> world" where
  "search_impl lib w this n data k cfg =
     (let params = GenParams cfg;
          w1 = emit (Call_search n (snd data) k) w
      in case the_index w1 this of
           None \<Rightarrow> (Inl (Undefined NullDereference), w1)
         | Some ix \<Rightarrow>
             (case read_floats data (n * d ix) of
                None \<Rightarrow> (Inl (Undefined OutOfBoundsRead), w1)
              | Some xq \<Rightarrow>
                  (let (fd, fl) = search_with_parameters lib ix n xq k params
                   in (Inr (map fd [0..<n * k], map fl [0..<n * k]), w1))))"

text \<open>\<open>Search\<close> allocates the two result buffers of \<open>rows * k\<close> elements (8 bytes an id, 4 a
  distance) only after the lifecycle check; the search fills them completely.\<close>

definition Search ::
  "faiss \<Rightarrow> world \<Rightarrow> FaissBaseIndex \<Rightarrow> Dataset \<Rightarrow> Config \<Rightarrow> (error + SearchResult) \<times> world" where
  "Search lib w this dataset config =
     (case the_index w this of
        None \<Rightarrow> (Inl NotTrained, w)
      | Some ix \<Rightarrow>
          if \<not> is_trained ix then (Inl NotTrained, w)
          else
            (let k = cfg_k config;
                 (data, dm, rws) = GETTENSOR dataset;
                 elems = rws * k;
                 w1 = emit (Malloc (8 * elems)) w;
                 w2 = emit (Malloc (4 * elems)) w1
             in case search_impl lib w2 this rws (data, 0) k config of
                  (Inl e, w3) \<Rightarrow> (Inl e, w3)
                | (Inr (res_dis, res_ids), w3) \<Rightarrow> (Inr \<lparr>ids = res_ids, dists = res_dis\<rparr>, w3)))"

subsection \<open>set_index_model, Count, Dimension, Clone\<close>

definition set_index_model ::
  "world \<Rightarrow> FaissBaseIndex \<Rightarrow> FaissBaseIndex \<Rightarrow> (error + FaissBaseIndex) \<times> world" where
  "set_index_model w this model =
     (case clone_index w (the_index w model) of
        (Inl e, w') \<Rightarrow> (Inl e, w')
      | (Inr a, w') \<Rightarrow> (Inr (this\<lparr>m_index := Some a\<rparr>), w'))"

definition Count :: "world \<Rightarrow> FaissBaseIndex \<Rightarrow> error + nat" where
  "Count w this =
     (case the_index w this of
        None \<Rightarrow> Inl (Undefined NullDereference)
      | Some ix \<Rightarrow> Inr (ntotal ix))"

definition Dimension :: "world \<Rightarrow> FaissBaseIndex \<Rightarrow> error + nat" where
  "Dimension w this =
     (case the_index w this of
        None \<Rightarrow> Inl (Undefined NullDereference)
      | Some ix \<Rightarrow> Inr (d ix))"

definition Clone_impl :: "nat \<Rightarrow> FaissBaseIndex" where
  "Clone_impl a = \<lparr>m_index = Some a\<rparr>"

definition Clone :: "world \<Rightarrow> FaissBaseIndex \<Rightarrow> (error + FaissBaseIndex) \<times> world" where
  "Clone w this =
     (case clone_index w (the_index w this) of
        (Inl e, w') \<Rightarrow> (Inl e, w')
      | (Inr new_index, w') \<Rightarrow> (Inr (Clone_impl new_index), w'))"

subsection \<open>CopyCpuToGpu\<close>

text \<open>The resource manager \<open>FaissGpuResourceMgr\<close> is not part of the sources; its \<open>GetRes\<close> is
  a parameter: from the pool and a device id it yields a resource or the null pointer, and the
  pool after the call. The result of a successful copy is a \<open>GPUIVF\<close> holding the device index,
  the device id and the resource. The \<open>ResScope\<close> guard around the copy locks the resource for
  the duration of the call and is left out of the sequential model.\<close>

record GPUIVF = FaissBaseIndex +
  m_gpu_id :: int
  m_res :: nat

definition CopyCpuToGpu ::
  "faiss \<Rightarrow> ('p \<Rightarrow> int \<Rightarrow> nat option \<times> 'p) \<Rightarrow> 'p \<Rightarrow> world \<Rightarrow> FaissBaseIndex \<Rightarrow> int \<Rightarrow> Config
     \<Rightarrow> (error + GPUIVF) \<times> world \<times> 'p" where
  "CopyCpuToGpu lib GetRes pool w this device_id config =
     (case GetRes pool device_id of
        (Some res, pool') \<Rightarrow>
          (case index_cpu_to_gpu lib res device_id (the_index w this) of
             Inl msg \<Rightarrow> (Inl (FaissException msg), w, pool')
           | Inr gpu_index \<Rightarrow>
               (let (a, w') = alloc w gpu_index
                in (Inr \<lparr>m_index = Some a, m_gpu_id = device_id, m_res = res\<rparr>, w', pool')))
      | (None, pool') \<Rightarrow> (Inl ResourceUnavailable, w, pool'))"

subsection \<open>GenGraph\<close>

text \<open>\<open>std::vector::resize\<close>: keep the first \<open>n\<close> elements, fill up with \<open>v\<close>.\<close>

definition resize :: "nat \<Rightarrow> 'a list \<Rightarrow> 'a \<Rightarrow> 'a list" where
  "resize n xs v = take n xs @ replicate (n - length xs) v"

text \<open>The innermost loop, \<open>for (int m = 0; m < k && tmp < k * b_size; ++m, ++tmp)\<close>, copies
  one result row into \<open>node\<close>.\<close>

function m_loop :: "nat \<Rightarrow> nat \<Rightarrow> int list \<Rightarrow> nat \<Rightarrow> nat \<Rightarrow> int list \<Rightarrow> int list \<times> nat" where
  "m_loop k b_size res m tmp node =
     (if m < k \<and> tmp < k * b_size
      then m_loop k b_size res (m + 1) (tmp + 1) (node[m := res ! tmp])
      else (node, tmp))"
  by pat_completeness auto
termination
  by (relation "measure (\<lambda>(k, b_size, res, m, tmp, node). k - m)") auto

text \<open>\<open>for (int j = 0; j < b_size; ++j)\<close>: one graph node per query of the batch.\<close>

function j_loop :: "nat \<Rightarrow> nat \<Rightarrow> int list \<Rightarrow> nat \<Rightarrow> nat \<Rightarrow> nat \<Rightarrow> Graph \<Rightarrow> Graph" where
  "j_loop k b_size res i j tmp graph =
     (if j < b_size
      then (let node = resize k (graph ! (100 * i + j)) 0;
                (node', tmp') = m_loop k b_size res 0 tmp node
            in j_loop k b_size res i (j + 1) tmp' (graph[100 * i + j := node']))
      else graph)"
  by pat_completeness auto
termination
  by (relation "measure (\<lambda>(k, b_size, res, i, j, tmp, graph). b_size - j)") auto

text \<open>\<open>for (int i = 0; i < total_search_count; ++i)\<close>: one search per batch. \<open>res\<close> is
  \<open>res_vec[i]\<close>, empty until it is resized to \<open>k * b_size\<close> here and filled by the search;
  \<open>res_dis\<close> is the distance buffer of \<open>k * batch_size\<close> floats that every batch overwrites
  from its start. An error ends the loop; the graph written so far is not returned.\<close>

function i_loop ::
  "faiss \<Rightarrow> FaissBaseIndex \<Rightarrow> Config \<Rightarrow> nat \<Rightarrow> float list \<Rightarrow> nat \<Rightarrow> nat \<Rightarrow> nat
     \<Rightarrow> nat \<Rightarrow> float list \<Rightarrow> Graph \<Rightarrow> world \<Rightarrow> (error + Graph) \<times> world" where
  "i_loop lib this config k data dm tail_batch_size total_search_count i res_dis graph w =
     (if i < total_search_count
      then (let b_size = (if i = total_search_count - 1 \<and> tail_batch_size \<noteq> 0
                          then tail_batch_size else 100);
                xq = (data, 100 * dm * i)
            in case search_impl lib w this b_size xq k config of
                 (Inl e, w1) \<Rightarrow> (Inl e, w1)
               | (Inr (dis, res), w1) \<Rightarrow>
                   i_loop lib this config k data dm tail_batch_size total_search_count (i + 1)
                     (dis @ drop (length dis) res_dis)
                     (j_loop k b_size res i 0 0 graph) w1)
      else (Inr graph, w))"
  by pat_completeness auto
termination
  by (relation "measure (\<lambda>(lib, this, config, k, data, dm, tl, total, i, res_dis, graph, w).
                    total - i)") auto

declare m_loop.simps [simp del] j_loop.simps [simp del] i_loop.simps [simp del]

text \<open>The counters \<open>i\<close>, \<open>j\<close>, \<open>m\<close> and \<open>tmp\<close> are \<open>int\<close>, and so is the node position
  \<open>batch_size * i + j\<close>. They stay below \<open>2^31\<close> exactly when the last node position
  \<open>ntotal - 1\<close> and the largest value \<open>k * b_size\<close> of \<open>tmp\<close> do; \<open>k * batch_size\<close> is computed
  in 64 bits. Outside this range the loops overflow a signed integer, which is undefined; the
  model gives that outcome to the whole call.\<close>

definition int_counters_ok :: "int \<Rightarrow> nat \<Rightarrow> bool" where
  "int_counters_ok k nt \<longleftrightarrow>
     int nt \<le> 2 ^ 31 \<and> k * int (min nt 100) < 2 ^ 31 \<and> k * 100 < 2 ^ 63"

definition GenGraph ::
  "faiss \<Rightarrow> world \<Rightarrow> FaissBaseIndex \<Rightarrow> int \<Rightarrow> Graph \<Rightarrow> Dataset \<Rightarrow> Config
     \<Rightarrow> (error + Graph) \<times> world" where
  "GenGraph lib w this k graph dataset config =
     (let (data, dm, rws) = GETTENSOR dataset
      in case Count w this of
           Inl e \<Rightarrow> (Inl e, w)
         | Inr nt \<Rightarrow>
             (let batch_size = 100;
                  tail_batch_size = nt mod batch_size;
                  batch_search_count = nt div batch_size;
                  total_search_count = (if tail_batch_size = 0 then batch_search_count
                                        else batch_search_count + 1)
              in if k < 0 then (Inl StdLengthError, w)
                 else if \<not> int_counters_ok k nt then (Inl (Undefined SignedOverflow), w)
                 else i_loop lib this config (nat k) data dm tail_batch_size total_search_count 0
                        (replicate (nat k * batch_size) 0) (resize nt graph []) w))"

subsection \<open>Derived notions\<close>

text \<open>The lifecycle check \<open>!index_ || !index_->is_trained\<close> passes exactly on a trained state.\<close>

definition trained :: "world \<Rightarrow> FaissBaseIndex \<Rightarrow> bool" where
  "trained w this = (case the_index w this of None \<Rightarrow> False | Some ix \<Rightarrow> is_trained ix)"



text \<open>The batch sizes of the searches recorded in a trace, in order.\<close>

fun search_batches :: "event list \<Rightarrow> nat list" where
  "search_batches [] = []"
| "search_batches (Call_search n off k # es) = n # search_batches es"
| "search_batches (e # es) = search_batches es"

text \<open>A mutation of an index state through its public interface, and its effect on the store
  and on the handle. A failed mutation leaves the handle as it was.\<close>

datatype mutation = Mut_Add Dataset Config | Mut_AddWithoutIds Dataset Config | Mut_Load BinarySet

fun mutate :: "faiss \<Rightarrow> mutation \<Rightarrow> world \<times> FaissBaseIndex \<Rightarrow> world \<times> FaissBaseIndex" where
  "mutate lib (Mut_Add dataset config) (w, c) = (snd (Add lib w c dataset config), c)"
| "mutate lib (Mut_AddWithoutIds dataset config) (w, c) =
     (snd (AddWithoutIds lib w c dataset config), c)"
| "mutate lib (Mut_Load index_binary) (w, c) =
     (case Load lib w c index_binary of (Inl e, w') \<Rightarrow> (w', c) | (Inr c', w') \<Rightarrow> (w', c'))"

subsection \<open>A small stand-in for faiss\<close>

text \<open>
  The theorems below hold for every implementation of the faiss entry points. To run the
  adapter on concrete inputs, this stand-in keeps all vectors in the first inverted list,
  refuses to train on fewer points than clusters, answers every query with the first \<open>k\<close>
  stored ids (\<open>-1\<close> where there are fewer), and writes only the header (dimension and number
  of lists) of an index, so that it reads back the empty trained L2 index of that shape.
\<close>

definition rows_of :: "nat \<Rightarrow> float list \<Rightarrow> nat \<Rightarrow> float list list" where
  "rows_of dm xs n = map (\<lambda>j. take dm (drop (j * dm) xs)) [0..<n]"

definition demo_train :: "faiss_Index \<Rightarrow> nat \<Rightarrow> float list \<Rightarrow> string + faiss_Index" where
  "demo_train ix n xs =
     (if n < nlist ix then Inl ''too few training points''
      else Inr (ix\<lparr>is_trained := True, centroids := rows_of (d ix) xs (nlist ix)\<rparr>))"

definition demo_add_with_ids :: "faiss_Index \<Rightarrow> nat \<Rightarrow> float list \<Rightarrow> int list \<Rightarrow> faiss_Index" where
  "demo_add_with_ids ix n xs is =
     ix\<lparr>ntotal := ntotal ix + n,
        invlists := (case invlists ix of
                       [] \<Rightarrow> [zip is (rows_of (d ix) xs n)]
                     | l # ls \<Rightarrow> (l @ zip is (rows_of (d ix) xs n)) # ls)\<rparr>"

definition demo_add :: "faiss_Index \<Rightarrow> nat \<Rightarrow> float list \<Rightarrow> faiss_Index" where
  "demo_add ix n xs = demo_add_with_ids ix n xs (map int [ntotal ix..<ntotal ix + n])"

definition demo_search ::
  "faiss_Index \<Rightarrow> nat \<Rightarrow> float list \<Rightarrow> nat \<Rightarrow> nat \<Rightarrow> (nat \<Rightarrow> float) \<times> (nat \<Rightarrow> int)" where
  "demo_search ix n xq k nprobe =
     (let stored = map fst (concat (invlists ix))
      in (\<lambda>t. 0, \<lambda>t. if t mod k < length stored then stored ! (t mod k) else - 1))"

definition demo_write_index :: "faiss_Index \<Rightarrow> byte list" where
  "demo_write_index ix = [of_nat (d ix), of_nat (nlist ix)]"

definition demo_read_index :: "byte list \<Rightarrow> faiss_Index option" where
  "demo_read_index bs =
     (case bs of
        [a, b] \<Rightarrow> Some ((IndexIVFFlat (unat a) (unat b) METRIC_L2)\<lparr>is_trained := True\<rparr>)
      | _ \<Rightarrow> None)"

definition demo :: faiss where
  "demo = \<lparr>train = demo_train, add_with_ids = demo_add_with_ids, add = demo_add,
           search_with_parameters = demo_search, write_index = demo_write_index,
           read_index = demo_read_index,
           index_cpu_to_gpu = (\<lambda>res dev p. case p of None \<Rightarrow> Inl ''no index'' | Some ix \<Rightarrow> Inr ix)\<rparr>"

text \<open>A resource pool that holds one resource per listed device.\<close>

definition demo_GetRes :: "int list \<Rightarrow> int \<Rightarrow> nat option \<times> int list" where
  "demo_GetRes pool dev = (if dev \<in> set pool then (Some (nat dev), remove1 dev pool) else (None, pool))"

text \<open>Concrete states and inputs: the empty store with an index handle that was never
  trained or loaded; a trained index of dimension 2 holding no vector, and the same after adding
  the two rows of \<open>ds2\<close> under the ids 7 and 9.\<close>

definition w0 :: world where
  "w0 = \<lparr>heap = [], events = []\<rparr>"

definition ivf0 :: FaissBaseIndex where
  "ivf0 = \<lparr>m_index = None\<rparr>"

definition ivf1 :: FaissBaseIndex where
  "ivf1 = \<lparr>m_index = Some 0\<rparr>"

definition ds0 :: Dataset where
  "ds0 = \<lparr>rows = 0, dim = 2, p_data = [], p_ids = []\<rparr>"

definition ds2 :: Dataset where
  "ds2 = \<lparr>rows = 2, dim = 2, p_data = [1, 2, 3, 4], p_ids = [7, 9]\<rparr>"

definition cfg0 :: Config where
  "cfg0 = \<lparr>cfg_nlist = 1, cfg_metric_type = ''L2'', cfg_k = 1, cfg_nprobe = None\<rparr>"

definition cfg_l2 :: Config where
  "cfg_l2 = \<lparr>cfg_nlist = 1, cfg_metric_type = ''l2'', cfg_k = 1, cfg_nprobe = None\<rparr>"

definition ix_empty :: faiss_Index where
  "ix_empty = (IndexIVFFlat 2 1 METRIC_L2)\<lparr>is_trained := True\<rparr>"

definition ix_untrained :: faiss_Index where
  "ix_untrained = IndexIVFFlat 2 1 METRIC_L2"

definition ix_two :: faiss_Index where
  "ix_two = demo_add_with_ids ix_empty 2 [1, 2, 3, 4] [7, 9]"

definition w_empty :: world where
  "w_empty = \<lparr>heap = [ix_empty], events = []\<rparr>"

definition w_untrained :: world where
  "w_untrained = \<lparr>heap = [ix_untrained], events = []\<rparr>"

definition w_two :: world where
  "w_two = \<lparr>heap = [ix_two], events = []\<rparr>"

text \<open>An index of dimension 1 that counts 101 vectors, and a dataset of 101 rows: two batches.\<close>

definition ix_many :: faiss_Index where
  "ix_many = (IndexIVFFlat 1 1 METRIC_L2)\<lparr>is_trained := True, ntotal := 101\<rparr>"

definition w_many :: world where
  "w_many = \<lparr>heap = [ix_many], events = []\<rparr>"

definition ds_many :: Dataset where
  "ds_many = \<lparr>rows = 101, dim = 1, p_data = replicate 101 0, p_ids = []\<rparr>"

section \<open>Properties\<close>

subsection \<open>What an operation's answer depends on\<close>

lemma the_index_emit [simp]: "the_index (emit e w) this = the_index w this"
  by (simp add: the_index_def emit_def deref_def split: option.splits)

lemma search_impl_known:
  assumes "the_index w this = Some ix"
  shows "search_impl lib w this n (data, off) k cfg =
           ((if off + n * d ix \<le> length data
             then (case search_with_parameters lib ix n (take (n * d ix) (drop off data)) k
                          (GenParams cfg) of
                     (fd, fl) \<Rightarrow> Inr (map fd [0..<n * k], map fl [0..<n * k]))
             else Inl (Undefined OutOfBoundsRead)),
            emit (Call_search n off k) w)"
  using assms by (simp add: search_impl_def read_floats_def Let_def split: prod.splits)

lemma Search_depends_on_index:
  assumes "the_index w1 a = the_index w2 b"
  shows "fst (Search lib w1 a dataset config) = fst (Search lib w2 b dataset config)"
proof (cases "the_index w2 b")
  case None
  with assms show ?thesis by (simp add: Search_def)
next
  case (Some ix)
  with assms have a: "the_index w1 a = Some ix" by simp
  show ?thesis
    by (simp add: Search_def a Some search_impl_known Let_def GETTENSOR_def split: prod.splits)
qed

lemma Count_depends_on_index:
  "the_index w1 a = the_index w2 b \<Longrightarrow> Count w1 a = Count w2 b"
  by (simp add: Count_def)

lemma Dimension_depends_on_index:
  "the_index w1 a = the_index w2 b \<Longrightarrow> Dimension w1 a = Dimension w2 b"
  by (simp add: Dimension_def)

lemma Train_unfold:
  "Train lib w dataset config =
     (let index = IndexIVFFlat (dim dataset) (cfg_nlist config)
                    (if cfg_metric_type config = ''L2'' then METRIC_L2 else METRIC_INNER_PRODUCT);
          w1 = emit (Call_train index (rows dataset) (p_data dataset)) w
      in case train lib index (rows dataset) (p_data dataset) of
           Inl msg \<Rightarrow> (Inl (FaissException msg), w1)
         | Inr index' \<Rightarrow> (Inr \<lparr>m_index = Some (length (heap w))\<rparr>, w1\<lparr>heap := heap w @ [index']\<rparr>))"
  by (simp add: Train_def GETTENSOR_def Let_def alloc_def emit_def split: sum.splits)

subsection \<open>Mutations of one handle leave the object of another alone\<close>

lemma the_index_store_other:
  "m_index s \<noteq> Some b \<Longrightarrow> the_index (store w b v) s = the_index w s"
  by (auto simp add: the_index_def store_def deref_def split: option.splits)

lemma the_index_alloc:
  "the_index w s = Some ix \<Longrightarrow> the_index (snd (alloc w v)) s = Some ix"
  by (auto simp add: the_index_def alloc_def deref_def nth_append split: option.splits if_splits)

lemma alloc_fresh:
  "the_index w s = Some ix \<Longrightarrow> m_index s \<noteq> Some (fst (alloc w v))"
  by (auto simp add: the_index_def alloc_def deref_def split: option.splits if_splits)

lemma mutate_frame:
  assumes "the_index w s = Some ix" and "m_index c \<noteq> m_index s"
      and "mutate lib mu (w, c) = (w', c')"
  shows "the_index w' s = Some ix \<and> m_index c' \<noteq> m_index s"
proof (cases mu)
  case (Mut_Add dataset config)
  with assms show ?thesis
    by (auto simp add: Add_def Let_def GETTENSOR_def the_index_store_other
          split: option.splits if_splits)
next
  case (Mut_AddWithoutIds dataset config)
  with assms show ?thesis
    by (auto simp add: AddWithoutIds_def Let_def GETTENSOR_def the_index_store_other
          split: option.splits if_splits)
next
  case (Mut_Load index_binary)
  show ?thesis
  proof (cases "index_binary ''IVF''")
    case None
    with Mut_Load assms show ?thesis by (simp add: Load_def LoadImpl_def)
  next
    case (Some bytes)
    show ?thesis
    proof (cases "read_index lib bytes")
      case None
      with Some Mut_Load assms show ?thesis by (simp add: Load_def LoadImpl_def)
    next
      case (Some v)
      from the_index_alloc [OF assms(1), of v] alloc_fresh [OF assms(1), of v]
      show ?thesis
        using Mut_Load assms \<open>index_binary ''IVF'' = Some bytes\<close> Some
        by (cases "alloc w v") (auto simp add: Load_def LoadImpl_def)
    qed
  qed
qed

lemma mutations_frame:
  assumes "the_index w s = Some ix" and "m_index c \<noteq> m_index s"
  shows "the_index (fst (fold (mutate lib) ms (w, c))) s = Some ix"
  using assms
proof (induction ms arbitrary: w c)
  case Nil
  then show ?case by simp
next
  case (Cons mu ms)
  obtain w' c' where step: "mutate lib mu (w, c) = (w', c')"
    by (cases "mutate lib mu (w, c)")
  from mutate_frame [OF Cons.prems step]
  have "the_index w' s = Some ix" and "m_index c' \<noteq> m_index s" by simp_all
  from Cons.IH [OF this] step show ?case by simp
qed

text \<open>\<open>set_index_model\<close> copies the model's index ("Deep copy here"): the new state has the
  model's content, and no mutation of the new state reaches the model.\<close>

lemma set_index_model_deep_copy:
  assumes "the_index w model = Some ix"
  shows "\<exists>s w1. set_index_model w this model = (Inr s, w1)
           \<and> the_index w1 s = Some ix
           \<and> (\<forall>ms. the_index (fst (fold (mutate lib) ms (w1, s))) model = Some ix)"
proof -
  let ?s = "this\<lparr>m_index := Some (length (heap w))\<rparr>"
  let ?w1 = "w\<lparr>heap := heap w @ [ix]\<rparr>"
  have run: "set_index_model w this model = (Inr ?s, ?w1)"
    using assms by (simp add: set_index_model_def clone_index_def alloc_def)
  have own: "the_index ?w1 ?s = Some ix"
    by (simp add: the_index_def deref_def)
  have m1: "the_index ?w1 model = Some ix"
    using the_index_alloc [OF assms, of ix] by (simp add: alloc_def)
  have ne: "m_index ?s \<noteq> m_index model"
    using alloc_fresh [OF assms, of ix] by (simp add: alloc_def)
  have "the_index (fst (fold (mutate lib) ms (?w1, ?s))) model = Some ix" for ms
    using mutations_frame [OF m1 ne] by simp
  with run own show ?thesis by blast
qed

subsection \<open>The loops of GenGraph\<close>

lemma length_resize [simp]: "length (resize n xs v) = n"
  by (simp add: resize_def)


lemma j_loop_length [simp]: "length (j_loop k b_size res i j tmp graph) = length graph"
proof (induction k b_size res i j tmp graph rule: j_loop.induct)
  case (1 k b_size res i j tmp graph)
  show ?case
  proof (cases "j < b_size")
    case False
    then show ?thesis by (simp add: j_loop.simps [of k b_size res i j tmp graph])
  next
    case True
    obtain node' tmp' where
      ml: "m_loop k b_size res 0 tmp (resize k (graph ! (100 * i + j)) 0) = (node', tmp')"
      by (cases "m_loop k b_size res 0 tmp (resize k (graph ! (100 * i + j)) 0)")
    from "1.IH" [OF True refl ml [symmetric] refl] True ml show ?thesis
      by (simp add: j_loop.simps [of k b_size res i j tmp graph])
  qed
qed






subsection \<open>Batch arithmetic\<close>


lemma search_batches_append [simp]:
  "search_batches (xs @ ys) = search_batches xs @ search_batches ys"
  by (induction xs rule: search_batches.induct) simp_all

lemma search_batches_calls [simp]:
  "search_batches (map (\<lambda>i. Call_search (f i) (g i) k) ns) = map f ns"
  by (induction ns) simp_all







subsection \<open>GenGraph as a whole\<close>




text \<open>A negative \<open>k\<close> is refused by the constructor of the distance buffer, before any
  search.\<close>

lemma GenGraph_negative_k:
  assumes "the_index w this = Some ix" and "k < 0"
  shows "GenGraph lib w this k graph dataset config = (Inl StdLengthError, w)"
  using assms by (simp add: GenGraph_def GETTENSOR_def Count_def Let_def)

lemma concrete_states [simp]:
  "the_index w0 ivf0 = None"
  "the_index w_empty ivf1 = Some ix_empty"
  "the_index w_untrained ivf1 = Some ix_untrained"
  "the_index w_two ivf1 = Some ix_two"
  "the_index w_many ivf1 = Some ix_many"
  by (simp_all add: the_index_def deref_def w0_def ivf0_def ivf1_def w_empty_def
        w_untrained_def w_two_def w_many_def)

lemma concrete_indexes [simp]:
  "is_trained ix_empty" "\<not> is_trained ix_untrained" "is_trained ix_two"
  "ntotal ix_empty = 0" "ntotal ix_two = 2" "ntotal ix_untrained = 0"
  "d ix_empty = 2" "d ix_two = 2" "d ix_untrained = 2"
  "ntotal ix_many = 101" "d ix_many = 1"
  by (simp_all add: ix_empty_def ix_untrained_def ix_two_def ix_many_def IndexIVFFlat_def
        demo_add_with_ids_def)

subsection \<open>The model at work\<close>

text \<open>Two stored vectors with the ids 7 and 9: a search for one neighbour of each of two
  queries allocates 16 and 8 bytes and, with the stand-in engine, finds the first stored id
  twice; the graph for \<open>k = 3\<close> is padded with \<open>-1\<close>. With 101 vectors \<open>GenGraph\<close> searches a
  batch of 100 at offset 0 and a batch of 1 at offset 100.\<close>

lemma Search_example:
  "Search demo w_two ivf1 ds2 cfg0
     = (Inr \<lparr>ids = [7, 7], dists = [0, 0]\<rparr>,
        w_two\<lparr>events := [Malloc 16, Malloc 8, Call_search 2 0 1]\<rparr>)"
  by code_simp

lemma GenGraph_example:
  "GenGraph demo w_two ivf1 3 [] ds2 cfg0
     = (Inr [[7, 9, - 1], [7, 9, - 1]], w_two\<lparr>events := [Call_search 2 0 3]\<rparr>)"
  by code_simp

lemma GenGraph_two_batches:
  "events (snd (GenGraph demo w_many ivf1 1 [] ds_many cfg0))
     = [Call_search 100 0 1, Call_search 1 100 1]"
  by code_simp

section \<open>The claims\<close>



text \<open>
  Claim C2 (search before training). On an index state that is not trained (no index object
  behind the handle, as when neither \<open>set_index_model\<close> nor \<open>Load\<close> has run, or an object
  that is not trained), \<open>Search\<close> raises the not-trained error and leaves the store and the trace
  as they were: no result buffer has been allocated.
\<close>

theorem Search_untrained:
  assumes "\<not> trained w this"
  shows "Search lib w this dataset config = (Inl NotTrained, w)"
  using assms by (simp add: Search_def trained_def split: option.splits)

theorem Search_untrained_witness:
  "\<not> trained w0 ivf0 \<and> Search demo w0 ivf0 ds2 cfg0 = (Inl NotTrained, w0)"
proof -
  have h: "\<not> trained w0 ivf0" by (simp add: trained_def)
  from Search_untrained [OF h] h show ?thesis by simp
qed

text \<open>
  Claim C3 (clone). Let \<open>s\<close> be an index state with an index object (trained or not). \<open>Clone\<close>
  succeeds; the clone answers every search as \<open>s\<close> does; and after any sequence of \<open>Add\<close>,
  \<open>AddWithoutIds\<close> and \<open>Load\<close> on the clone, successful or not, \<open>Count\<close>, \<open>Dimension\<close> and every
  search answer of \<open>s\<close> are what they were before the clone was made.
\<close>

theorem Clone_independent:
  assumes "the_index w s = Some ix"
  shows "\<exists>c w1.
           Clone w s = (Inr c, w1) \<and>
           (\<forall>dataset config.
              fst (Search lib w1 c dataset config) = fst (Search lib w s dataset config)) \<and>
           (\<forall>ms. Count (fst (fold (mutate lib) ms (w1, c))) s = Count w s \<and>
                 Dimension (fst (fold (mutate lib) ms (w1, c))) s = Dimension w s \<and>
                 (\<forall>dataset config.
                    fst (Search lib (fst (fold (mutate lib) ms (w1, c))) s dataset config)
                      = fst (Search lib w s dataset config)))"
proof -
  let ?c = "Clone_impl (length (heap w))"
  let ?w1 = "w\<lparr>heap := heap w @ [ix]\<rparr>"
  have cl: "Clone w s = (Inr ?c, ?w1)"
    using assms by (simp add: Clone_def clone_index_def alloc_def)
  have same: "the_index ?w1 ?c = the_index w s"
    using assms by (simp add: the_index_def deref_def Clone_impl_def)
  have s1: "the_index ?w1 s = Some ix"
    using the_index_alloc [OF assms, of ix] by (simp add: alloc_def)
  have ne: "m_index ?c \<noteq> m_index s"
    using alloc_fresh [OF assms, of ix] by (simp add: alloc_def Clone_impl_def)
  have fr: "the_index (fst (fold (mutate lib) ms (?w1, ?c))) s = the_index w s" for ms
    using mutations_frame [OF s1 ne] assms by simp
  show ?thesis
    using cl Search_depends_on_index [OF same] Search_depends_on_index [OF fr]
      Count_depends_on_index [OF fr] Dimension_depends_on_index [OF fr]
    by blast
qed

theorem Clone_independent_witness:
  "the_index w_two ivf1 = Some ix_two \<and>
   (\<exists>c w1.
      Clone w_two ivf1 = (Inr c, w1) \<and>
      (\<forall>dataset config.
         fst (Search demo w1 c dataset config) = fst (Search demo w_two ivf1 dataset config)) \<and>
      (\<forall>ms. Count (fst (fold (mutate demo) ms (w1, c))) ivf1 = Count w_two ivf1 \<and>
            Dimension (fst (fold (mutate demo) ms (w1, c))) ivf1 = Dimension w_two ivf1 \<and>
            (\<forall>dataset config.
               fst (Search demo (fst (fold (mutate demo) ms (w1, c))) ivf1 dataset config)
                 = fst (Search demo w_two ivf1 dataset config))))"
proof -
  have h: "the_index w_two ivf1 = Some ix_two" by simp
  from Clone_independent [OF h, where lib = demo] h show ?thesis by blast
qed




text \<open>
  Claim C5 (no device lease). When the resource pool hands out no resource for the device,
  \<open>CopyCpuToGpu\<close> raises the resource error, and the store is what it was before the call; in
  particular \<open>Count()\<close> of the host index state is unchanged.
\<close>

theorem CopyCpuToGpu_no_lease:
  assumes "fst (GetRes pool device_id) = None"
  shows "fst (CopyCpuToGpu lib GetRes pool w this device_id config) = Inl ResourceUnavailable
       \<and> fst (snd (CopyCpuToGpu lib GetRes pool w this device_id config)) = w
       \<and> Count (fst (snd (CopyCpuToGpu lib GetRes pool w this device_id config))) this = Count w this"
  using assms by (cases "GetRes pool device_id") (simp add: CopyCpuToGpu_def)

theorem CopyCpuToGpu_no_lease_witness:
  "fst (demo_GetRes [0] 5) = None \<and>
   fst (CopyCpuToGpu demo demo_GetRes [0] w_two ivf1 5 cfg0) = Inl ResourceUnavailable \<and>
   fst (snd (CopyCpuToGpu demo demo_GetRes [0] w_two ivf1 5 cfg0)) = w_two \<and>
   Count (fst (snd (CopyCpuToGpu demo demo_GetRes [0] w_two ivf1 5 cfg0))) ivf1
     = Count w_two ivf1"
proof -
  have h: "fst (demo_GetRes [0] 5) = None" by (simp add: demo_GetRes_def)
  from CopyCpuToGpu_no_lease
         [where GetRes = demo_GetRes and pool = "[0]" and device_id = 5, OF h] h
  show ?thesis by blast
qed

text \<open>
  Claim C6 (training on an empty batch), as amended. \<open>Train\<close> does not look at the number of
  rows. On a batch of zero rows it builds the index and calls the quantizer training once, with
  zero rows; it fails exactly when that call throws, with the exception of the call, and
  otherwise returns the model.
\<close>

theorem Train_empty_batch:
  assumes "rows dataset = 0"
  shows "events (snd (Train lib w dataset config))
           = events w @ [Call_train
               (IndexIVFFlat (dim dataset) (cfg_nlist config)
                  (if cfg_metric_type config = ''L2'' then METRIC_L2 else METRIC_INNER_PRODUCT))
               0 (p_data dataset)]
       \<and> fst (Train lib w dataset config)
           = (case train lib
                  (IndexIVFFlat (dim dataset) (cfg_nlist config)
                     (if cfg_metric_type config = ''L2'' then METRIC_L2 else METRIC_INNER_PRODUCT))
                  0 (p_data dataset) of
                Inl msg \<Rightarrow> Inl (FaissException msg)
              | Inr index' \<Rightarrow> Inr \<lparr>m_index = Some (length (heap w))\<rparr>)"
  using assms by (simp add: Train_unfold Let_def emit_def split: sum.splits)

theorem Train_empty_batch_witness:
  "rows ds0 = 0 \<and>
   events (snd (Train demo w0 ds0 cfg0))
     = events w0 @ [Call_train
         (IndexIVFFlat (dim ds0) (cfg_nlist cfg0)
            (if cfg_metric_type cfg0 = ''L2'' then METRIC_L2 else METRIC_INNER_PRODUCT))
         0 (p_data ds0)]
   \<and> fst (Train demo w0 ds0 cfg0)
     = (case train demo
            (IndexIVFFlat (dim ds0) (cfg_nlist cfg0)
               (if cfg_metric_type cfg0 = ''L2'' then METRIC_L2 else METRIC_INNER_PRODUCT))
            0 (p_data ds0) of
          Inl msg \<Rightarrow> Inl (FaissException msg)
        | Inr index' \<Rightarrow> Inr \<lparr>m_index = Some (length (heap w0))\<rparr>)"
proof -
  have h: "rows ds0 = 0" by (simp add: ds0_def)
  from Train_empty_batch [OF h, of demo w0 cfg0] h show ?thesis by blast
qed

text \<open>The claim as it was stated has \<open>Train\<close> fail before the quantizer training is called.
  On the empty batch the training is called, and the failure is the one it throws.\<close>

theorem Train_empty_batch_counterexample:
  "rows ds0 = 0 \<and>
   events (snd (Train demo w0 ds0 cfg0)) = [Call_train (IndexIVFFlat 2 1 METRIC_L2) 0 []] \<and>
   fst (Train demo w0 ds0 cfg0) = Inl (FaissException ''too few training points'')"
  by (simp add: Train_unfold Let_def emit_def ds0_def cfg0_def w0_def demo_def demo_train_def
        IndexIVFFlat_def)

text \<open>
  Claim C7 (serialise). On a state that is not trained, \<open>Serialize\<close> raises the not-trained
  error and changes nothing. On a trained state it returns the encoded index, and the trace
  shows the order of its work: \<open>Seal\<close>, the sealing itself, then the encoder.
\<close>

theorem Serialize_seals_first:
  "Serialize lib w this =
     (case the_index w this of
        None \<Rightarrow> (Inl NotTrained, w)
      | Some ix \<Rightarrow>
          if is_trained ix
          then (Inr (Map.empty(''IVF'' \<mapsto> write_index lib ix)),
                w\<lparr>events := events w @ [Call_Seal, Call_SealImpl, Call_SerializeImpl]\<rparr>)
          else (Inl NotTrained, w))"
  by (simp add: Serialize_def Seal_def SealImpl_def SerializeImpl_def Let_def emit_def
        the_index_def deref_def split: option.splits)

theorem Serialize_seals_first_witness:
  "Serialize demo w0 ivf0 = (Inl NotTrained, w0) \<and>
   Serialize demo w_untrained ivf1 = (Inl NotTrained, w_untrained) \<and>
   Serialize demo w_empty ivf1 =
     (Inr (Map.empty(''IVF'' \<mapsto> write_index demo ix_empty)),
      w_empty\<lparr>events := events w_empty @ [Call_Seal, Call_SealImpl, Call_SerializeImpl]\<rparr>)"
  using Serialize_seals_first [of demo w0 ivf0] Serialize_seals_first [of demo w_untrained ivf1]
    Serialize_seals_first [of demo w_empty ivf1]
  by simp

text \<open>
  Claim C8 (Count and Dimension are unguarded). \<open>Count\<close> and \<open>Dimension\<close> never raise the
  not-trained error. With no index object behind the handle they dereference the null pointer,
  where \<open>Add\<close>, \<open>AddWithoutIds\<close>, \<open>Search\<close>, \<open>Serialize\<close> and \<open>Seal\<close> raise the not-trained error.
  With an index object they return its fields whether or not it is trained, where the five
  others still raise the not-trained error on an untrained one.
\<close>

theorem Count_Dimension_unguarded:
  "Count w this \<noteq> Inl NotTrained \<and> Dimension w this \<noteq> Inl NotTrained \<and>
   (case the_index w this of
      None \<Rightarrow>
        Count w this = Inl (Undefined NullDereference) \<and>
        Dimension w this = Inl (Undefined NullDereference) \<and>
        fst (Add lib w this dataset config) = Inl NotTrained \<and>
        fst (AddWithoutIds lib w this dataset config) = Inl NotTrained \<and>
        fst (Search lib w this dataset config) = Inl NotTrained \<and>
        fst (Serialize lib w this) = Inl NotTrained \<and>
        fst (Seal w this) = Inl NotTrained
    | Some ix \<Rightarrow>
        Count w this = Inr (ntotal ix) \<and>
        Dimension w this = Inr (d ix) \<and>
        (is_trained ix \<or>
           fst (Add lib w this dataset config) = Inl NotTrained \<and>
           fst (AddWithoutIds lib w this dataset config) = Inl NotTrained \<and>
           fst (Search lib w this dataset config) = Inl NotTrained \<and>
           fst (Serialize lib w this) = Inl NotTrained \<and>
           fst (Seal w this) = Inl NotTrained))"
  by (auto simp add: Count_def Dimension_def Add_def AddWithoutIds_def Search_def Serialize_def
        Seal_def Let_def emit_def the_index_def deref_def split: option.splits)

theorem Count_Dimension_unguarded_witness:
  "Count w0 ivf0 = Inl (Undefined NullDereference) \<and>
   Dimension w0 ivf0 = Inl (Undefined NullDereference) \<and>
   fst (Add demo w0 ivf0 ds2 cfg0) = Inl NotTrained \<and>
   fst (Search demo w0 ivf0 ds2 cfg0) = Inl NotTrained \<and>
   Count w_untrained ivf1 = Inr 0 \<and>
   Dimension w_untrained ivf1 = Inr 2 \<and>
   fst (Add demo w_untrained ivf1 ds2 cfg0) = Inl NotTrained \<and>
   fst (Search demo w_untrained ivf1 ds2 cfg0) = Inl NotTrained"
  using Count_Dimension_unguarded [of w0 ivf0 demo ds2 cfg0]
    Count_Dimension_unguarded [of w_untrained ivf1 demo ds2 cfg0]
  by simp

text \<open>
  Claim C9 (metric selection). Whatever the string under \<open>metric_type\<close>, \<open>Train\<close> builds the
  index with the L2 metric when the string is exactly \<open>L2\<close> and with the inner-product metric
  otherwise, and hands that index to the quantizer training. It raises no error of its own:
  its outcome is the outcome of the training call.
\<close>

theorem Train_metric:
  "\<exists>index. events (snd (Train lib w dataset config))
              = events w @ [Call_train index (rows dataset) (p_data dataset)]
         \<and> metric_type index
              = (if cfg_metric_type config = ''L2'' then METRIC_L2 else METRIC_INNER_PRODUCT)
         \<and> (\<forall>msg. fst (Train lib w dataset config) \<noteq> Inl (KnowhereException msg))
         \<and> (case train lib index (rows dataset) (p_data dataset) of
              Inl msg \<Rightarrow> fst (Train lib w dataset config) = Inl (FaissException msg)
            | Inr index' \<Rightarrow> (\<exists>m. fst (Train lib w dataset config) = Inr m
                               \<and> the_index (snd (Train lib w dataset config)) m = Some index'))"
  by (auto simp add: Train_unfold Let_def emit_def IndexIVFFlat_def the_index_def deref_def
       split: sum.splits)

theorem Train_metric_witness:
  "\<exists>index. events (snd (Train demo w0 ds2 cfg_l2)) = [Call_train index 2 [1, 2, 3, 4]]
         \<and> metric_type index = METRIC_INNER_PRODUCT
         \<and> (\<exists>m. fst (Train demo w0 ds2 cfg_l2) = Inr m)"
proof -
  from Train_metric [of demo w0 ds2 cfg_l2]
  obtain index where
    ev: "events (snd (Train demo w0 ds2 cfg_l2))
           = events w0 @ [Call_train index (rows ds2) (p_data ds2)]"
    and mt: "metric_type index
           = (if cfg_metric_type cfg_l2 = ''L2'' then METRIC_L2 else METRIC_INNER_PRODUCT)"
    by blast
  have "\<exists>m. fst (Train demo w0 ds2 cfg_l2) = Inr m"
    by (simp add: Train_unfold Let_def demo_def demo_train_def IndexIVFFlat_def ds2_def
          cfg_l2_def)
  with ev mt show ?thesis by (auto simp add: w0_def ds2_def cfg_l2_def)
qed



end
